theory Spec2Isabelle
  imports Main "HOL-Library.Log_Nat" "HOL-Library.Sublist"
begin

section \<open>Python values used by the Nanoleaf integration\<close>

text \<open>
  The exceptions that the modelled code raises, catches or lets through.
  \<open>Unavailable\<close>, \<open>NotAuthorizingNewTokens\<close> and \<open>InvalidToken\<close> come from the
  pynanoleaf client; the others are Python's own.
\<close>

datatype error =
    Unavailable
  | NotAuthorizingNewTokens
  | InvalidToken
  | ValueError
  | TypeError
  | KeyError

subsection \<open>Binary64 floats\<close>

text \<open>
  A finite Python float is a dyadic number: \<open>Float m e\<close> stands for \<open>m * 2 ^ e\<close>.
  Arithmetic computes the exact rational result \<open>n / d\<close> and rounds it to the nearest
  number with a 53-bit significand, ties to even, as IEEE 754 binary64 does in its
  normal range. The only results computed in this code are the product and the
  quotient of a brightness with the constant 2.55, which are far from overflow
  and from the subnormal numbers.
\<close>

datatype float = Float (mantissa: int) (exponent: int)

definition shift_ratio :: "int \<Rightarrow> int \<Rightarrow> int \<Rightarrow> int \<times> int" where
  \<comment> \<open>the ratio \<open>(n / d) / 2 ^ e\<close> as a pair of integers\<close>
  "shift_ratio n d e = (if 0 \<le> e then (n, d * 2 ^ nat e) else (n * 2 ^ nat (- e), d))"

definition ilog2 :: "int \<Rightarrow> int \<Rightarrow> int" where
  \<comment> \<open>\<open>\<lfloor>log\<^sub>2 (n / d)\<rfloor>\<close> for positive \<open>n\<close> and \<open>d\<close>: the bit lengths give it up to one\<close>
  "ilog2 n d = (let p = bitlen n - bitlen d; (a, b) = shift_ratio n d p
                in if a < b then p - 1 else p)"

definition round_half_even :: "int \<Rightarrow> int \<Rightarrow> int" where
  \<comment> \<open>the integer nearest to \<open>n / d\<close> (\<open>0 \<le> n\<close>, \<open>0 < d\<close>), a tie going to the even one\<close>
  "round_half_even n d = (let q = n div d; r = n mod d
     in if 2 * r < d then q else if d < 2 * r then q + 1 else if even q then q else q + 1)"

definition nearest_binary64 :: "int \<Rightarrow> int \<Rightarrow> float" where
  \<comment> \<open>the float nearest to \<open>n / d\<close>, for \<open>0 < d\<close>\<close>
  "nearest_binary64 n d = (if n = 0 then Float 0 0 else
     let e = ilog2 \<bar>n\<bar> d - 52; (a, b) = shift_ratio \<bar>n\<bar> d e
     in Float (sgn n * round_half_even a b) e)"

definition float_of_int :: "int \<Rightarrow> float" where
  \<comment> \<open>the conversion Python applies to an int operand of a float operation\<close>
  "float_of_int n = nearest_binary64 n 1"

definition float_mul :: "float \<Rightarrow> float \<Rightarrow> float" where
  \<comment> \<open>\<^verbatim>\<open>x * y\<close>\<close>
  "float_mul x y = (case (x, y) of (Float m1 e1, Float m2 e2) \<Rightarrow>
      (let (n, d) = shift_ratio (m1 * m2) 1 (- (e1 + e2)) in nearest_binary64 n d))"

definition float_truediv :: "float \<Rightarrow> float \<Rightarrow> float" where
  \<comment> \<open>\<^verbatim>\<open>x / y\<close> for a non-zero \<open>y\<close>; the only divisor in this code is the constant 2.55\<close>
  "float_truediv x y = (case (x, y) of (Float m1 e1, Float m2 e2) \<Rightarrow>
      (let (n, d) = shift_ratio (m1 * sgn m2) \<bar>m2\<bar> (e2 - e1) in nearest_binary64 n d))"

definition py_int :: "float \<Rightarrow> int" where
  \<comment> \<open>\<^verbatim>\<open>int(x)\<close>: truncation toward zero\<close>
  "py_int x = (case x of Float m e \<Rightarrow>
      if 0 \<le> e then m * 2 ^ nat e else sgn m * (\<bar>m\<bar> div 2 ^ nat (- e)))"

definition py_round :: "float \<Rightarrow> int" where
  \<comment> \<open>\<^verbatim>\<open>round(x)\<close> with one argument: the nearest integer, ties to even\<close>
  "py_round x = (case x of Float m e \<Rightarrow>
      if 0 \<le> e then m * 2 ^ nat e else sgn m * round_half_even \<bar>m\<bar> (2 ^ nat (- e)))"

definition py_bool_float :: "float \<Rightarrow> bool" where
  \<comment> \<open>truth value of a float: false exactly for zero\<close>
  "py_bool_float x = (mantissa x \<noteq> 0)"

definition c2_55 :: float where
  \<comment> \<open>the literal \<^verbatim>\<open>2.55\<close>\<close>
  "c2_55 = nearest_binary64 255 100"

section \<open>The light entity (light.py)\<close>

text \<open>
  The fields of \<^verbatim>\<open>NanoleafLight\<close>; \<open>self_x\<close> is the attribute \<^verbatim>\<open>self._x\<close>. The
  client handle \<^verbatim>\<open>self._light\<close> is not a field: what the entity reads from the
  client is an argument of \<open>update\<close>, and what it sends to the client is the list
  of calls that \<open>turn_on\<close> and \<open>turn_off\<close> return.
\<close>

record nanoleaf_light =
  self_unique_id :: "string option"
  self_available :: bool
  self_brightness :: "int option"
  self_color_temp :: "int option"
  self_effect :: "string option"
  self_effects_list :: "string list option"
  self_firmwareVersion :: "string option"
  self_manufacturer :: "string option"
  self_model :: "string option"
  self_name :: string
  self_hs_color :: "(int \<times> int) option"
  self_state :: "bool option"

definition init :: "string \<Rightarrow> nanoleaf_light" where
  \<comment> \<open>\<^verbatim>\<open>__init__\<close>\<close>
  "init name = \<lparr>self_unique_id = None, self_available = True, self_brightness = None,
     self_color_temp = None, self_effect = None, self_effects_list = None,
     self_firmwareVersion = None, self_manufacturer = None, self_model = None,
     self_name = name, self_hs_color = None, self_state = None\<rparr>"

text \<open>
  The part of the dictionary \<^verbatim>\<open>self._light.info\<close> that \<open>update\<close> reads; a field
  \<open>state_x_value\<close> is \<^verbatim>\<open>info["state"]["x"]["value"]\<close>, \<open>effects_x\<close> is
  \<^verbatim>\<open>info["effects"]["x"]\<close>.
\<close>

record nanoleaf_info =
  firmwareVersion :: string
  manufacturer :: string
  model :: string
  serialNo :: string
  state_brightness_value :: int
  state_ct_value :: int
  state_hue_value :: int
  state_sat_value :: int
  state_on_value :: bool
  effects_select :: string
  effects_effectsList :: "string list"

subsection \<open>Properties\<close>

definition available :: "nanoleaf_light \<Rightarrow> bool" where
  "available self = self_available self"

definition brightness :: "nanoleaf_light \<Rightarrow> int option" where
  "brightness self = (case self_brightness self of
      Some b \<Rightarrow> Some (py_int (float_mul (float_of_int b) c2_55))
    | None \<Rightarrow> None)"

text \<open>
  \<^verbatim>\<open>color_util.color_temperature_kelvin_to_mired\<close> and \<^verbatim>\<open>mired_to_kelvin\<close> belong
  to the host's utility module, which is not part of these sources: they are
  parameters of the definitions that call them.
\<close>

definition color_temp :: "(int \<Rightarrow> int) \<Rightarrow> nanoleaf_light \<Rightarrow> int option" where
  "color_temp color_temperature_kelvin_to_mired self = (case self_color_temp self of
      Some k \<Rightarrow> Some (color_temperature_kelvin_to_mired k)
    | None \<Rightarrow> None)"

definition effect :: "nanoleaf_light \<Rightarrow> string option" where
  "effect self = self_effect self"

definition effect_list :: "nanoleaf_light \<Rightarrow> string list option" where
  "effect_list self = self_effects_list self"

definition unique_id :: "nanoleaf_light \<Rightarrow> string option" where
  "unique_id self = self_unique_id self"

definition name :: "nanoleaf_light \<Rightarrow> string" where
  "name self = self_name self"

definition is_on :: "nanoleaf_light \<Rightarrow> bool option" where
  "is_on self = self_state self"

definition hs_color :: "nanoleaf_light \<Rightarrow> (int \<times> int) option" where
  "hs_color self = self_hs_color self"

subsection \<open>Polling\<close>

text \<open>
  \<open>update fetched self\<close>: \<open>fetched\<close> is the outcome of reading \<^verbatim>\<open>self._light.info\<close>,
  the dictionary or the exception raised. Only \<open>Unavailable\<close> is caught; any other
  exception leaves the entity as it was and propagates (the first component). The
  log entry written in the handler is not modelled.
\<close>

definition update :: "error + nanoleaf_info \<Rightarrow> nanoleaf_light \<Rightarrow> error option \<times> nanoleaf_light" where
  "update fetched self = (case fetched of
      Inr info \<Rightarrow>
        (let self = self\<lparr>self_available := True\<rparr>;
             self = self\<lparr>self_firmwareVersion := Some (firmwareVersion info)\<rparr>;
             self = self\<lparr>self_manufacturer := Some (manufacturer info)\<rparr>;
             self = self\<lparr>self_model := Some (model info)\<rparr>;
             self = self\<lparr>self_unique_id := Some (serialNo info)\<rparr>;
             self = self\<lparr>self_brightness := Some (state_brightness_value info)\<rparr>;
             self = self\<lparr>self_effects_list := Some (effects_effectsList info)\<rparr>;
             self = self\<lparr>self_effect :=
                      (if effects_select info \<in> set (effects_effectsList info)
                       then Some (effects_select info) else None)\<rparr>;
             self = (if self_effect self = None
                     then self\<lparr>self_color_temp := Some (state_ct_value info),
                               self_hs_color := Some (state_hue_value info, state_sat_value info)\<rparr>
                     else self\<lparr>self_color_temp := None, self_hs_color := None\<rparr>);
             self = self\<lparr>self_state := Some (state_on_value info)\<rparr>
         in (None, self))
    | Inl Unavailable \<Rightarrow> (None, self\<lparr>self_available := False\<rparr>)
    | Inl err \<Rightarrow> (Some err, self))"

subsection \<open>Commands\<close>

text \<open>
  The calls made on the client \<^verbatim>\<open>self._light\<close>: an attribute assignment
  \<^verbatim>\<open>self._light.x = v\<close> is \<open>SetX v\<close>, and \<open>BrightnessTransition b t\<close> is
  \<^verbatim>\<open>self._light.brightness_transition(b, t)\<close>.
\<close>

datatype device_call =
    SetHue int
  | SetSaturation int
  | SetColorTemperature int
  | SetOn bool
  | SetBrightness int
  | BrightnessTransition int int
  | SetEffect string

text \<open>
  The client is an external library whose calls go to the device and may fail:
  \<open>client c\<close> is \<open>None\<close> when the call \<open>c\<close> returns and the exception when it
  raises (\<open>Unavailable\<close> when the device cannot be reached). Neither \<open>turn_on\<close> nor
  \<open>turn_off\<close> catches anything, so the first exception ends the command. A
  command makes no call twice, so a function of the call describes every way in
  which the client can fail during one command.

  A command is run on an outcome: the calls made so far, in order and with the
  one that raised last, and the exception raised, if any. Once an exception is
  raised nothing more happens.
\<close>

type_synonym client = "device_call \<Rightarrow> error option"

type_synonym outcome = "device_call list \<times> error option"

definition client_call :: "client \<Rightarrow> device_call \<Rightarrow> outcome \<Rightarrow> outcome" where
  "client_call client c r = (case snd r of
      None \<Rightarrow> (fst r @ [c], client c)
    | Some err \<Rightarrow> r)"

definition py_raise :: "error \<Rightarrow> outcome \<Rightarrow> outcome" where
  "py_raise err r = (case snd r of
      None \<Rightarrow> (fst r, Some err)
    | Some earlier \<Rightarrow> r)"

text \<open>
  The keyword arguments read by \<^verbatim>\<open>kwargs.get\<close>; \<open>None\<close> is an absent key. The host
  passes brightness and colour temperature as ints, the hue and saturation pair
  and the transition as floats.
\<close>

record turn_on_kwargs =
  ATTR_BRIGHTNESS :: "int option"
  ATTR_HS_COLOR :: "(float \<times> float) option"
  ATTR_COLOR_TEMP :: "int option"
  ATTR_EFFECT :: "string option"
  ATTR_TRANSITION :: "float option"

definition to_device_brightness :: "int \<Rightarrow> int" where
  \<comment> \<open>\<^verbatim>\<open>int(brightness / 2.55)\<close>\<close>
  "to_device_brightness b = py_int (float_truediv (float_of_int b) c2_55)"

text \<open>
  Each \<^verbatim>\<open>if x:\<close> of the source tests the truth value of \<open>x\<close>: \<open>None\<close>, the number
  zero and the empty string are false. The functions below return the value
  when it is true. A hue and saturation pair is a non-empty tuple, which is true.
\<close>

definition truthy_int :: "int option \<Rightarrow> int option" where
  "truthy_int x = (case x of Some n \<Rightarrow> if n \<noteq> 0 then Some n else None | None \<Rightarrow> None)"

definition truthy_float :: "float option \<Rightarrow> float option" where
  "truthy_float x = (case x of Some t \<Rightarrow> if py_bool_float t then Some t else None | None \<Rightarrow> None)"

definition truthy_str :: "string option \<Rightarrow> string option" where
  "truthy_str x = (case x of Some s \<Rightarrow> if s \<noteq> [] then Some s else None | None \<Rightarrow> None)"

text \<open>
  \<open>turn_on\<close> returns the outcome of the command.
  \<^verbatim>\<open>effect not in self._effects_list\<close> raises \<open>TypeError\<close> while the list is still
  \<open>None\<close>.
\<close>

definition turn_on ::
  "client \<Rightarrow> (int \<Rightarrow> int) \<Rightarrow> nanoleaf_light \<Rightarrow> turn_on_kwargs \<Rightarrow> outcome" where
  "turn_on self_light mired_to_kelvin self kwargs =
    (let brightness = ATTR_BRIGHTNESS kwargs;
         hs_color = ATTR_HS_COLOR kwargs;
         color_temp_mired = ATTR_COLOR_TEMP kwargs;
         effect = ATTR_EFFECT kwargs;
         transition = ATTR_TRANSITION kwargs;
         r = ([], None);
         r = (case hs_color of
             Some (hue, saturation) \<Rightarrow>
               (let r = client_call self_light (SetHue (py_int hue)) r
                in client_call self_light (SetSaturation (py_int saturation)) r)
           | None \<Rightarrow> r);
         r = (case truthy_int color_temp_mired of
             Some m \<Rightarrow> client_call self_light (SetColorTemperature (mired_to_kelvin m)) r
           | None \<Rightarrow> r);
         r = (case truthy_float transition of
             Some t \<Rightarrow>
               (case truthy_int brightness of
                  Some b \<Rightarrow>
                    client_call self_light (BrightnessTransition (to_device_brightness b) (py_int t)) r
                | None \<Rightarrow> client_call self_light (BrightnessTransition 100 (py_int t)) r)
           | None \<Rightarrow>
               (let r = client_call self_light (SetOn True) r
                in case truthy_int brightness of
                     Some b \<Rightarrow> client_call self_light (SetBrightness (to_device_brightness b)) r
                   | None \<Rightarrow> r))
     in case truthy_str effect of
          Some e \<Rightarrow>
            (case self_effects_list self of
               None \<Rightarrow> py_raise TypeError r
             | Some effects \<Rightarrow>
                 if e \<notin> set effects then py_raise ValueError r
                 else client_call self_light (SetEffect e) r)
        | None \<Rightarrow> r)"

definition turn_off :: "client \<Rightarrow> float option \<Rightarrow> outcome" where
  \<comment> \<open>the last argument is \<^verbatim>\<open>kwargs.get(ATTR_TRANSITION)\<close>\<close>
  "turn_off self_light transition = (case truthy_float transition of
      Some t \<Rightarrow> client_call self_light (BrightnessTransition 0 (py_int t)) ([], None)
    | None \<Rightarrow> client_call self_light (SetOn False) ([], None))"

text \<open>
  The calls that set the colour, and the test that those among the calls made
  returned.
\<close>

definition is_colour_call :: "device_call \<Rightarrow> bool" where
  "is_colour_call c = (case c of
      SetHue h \<Rightarrow> True
    | SetSaturation s \<Rightarrow> True
    | SetColorTemperature k \<Rightarrow> True
    | SetOn v \<Rightarrow> False
    | SetBrightness b \<Rightarrow> False
    | BrightnessTransition b t \<Rightarrow> False
    | SetEffect e \<Rightarrow> False)"

definition colour_calls_return :: "client \<Rightarrow> device_call list \<Rightarrow> bool" where
  "colour_calls_return client calls = list_all (\<lambda>c. is_colour_call c \<longrightarrow> client c = None) calls"

definition client_raised :: "client \<Rightarrow> device_call list \<Rightarrow> bool" where
  "client_raised client calls = list_ex (\<lambda>c. client c \<noteq> None) calls"

text \<open>
  For the proofs, \<open>turn_on\<close> is cut into its three parts: the calls for the
  colour, the ramp or the switching on, and the effect. An outcome is consistent
  with a client when it can come from calls on that client: with no
  exception, every call made returned, and otherwise the last call made raised
  the exception and those before it returned.
\<close>

definition colour_part :: "client \<Rightarrow> (int \<Rightarrow> int) \<Rightarrow> turn_on_kwargs \<Rightarrow> outcome \<Rightarrow> outcome" where
  "colour_part self_light mired_to_kelvin kwargs r =
    (let r = (case ATTR_HS_COLOR kwargs of
             Some (hue, saturation) \<Rightarrow>
               (let r = client_call self_light (SetHue (py_int hue)) r
                in client_call self_light (SetSaturation (py_int saturation)) r)
           | None \<Rightarrow> r)
     in case truthy_int (ATTR_COLOR_TEMP kwargs) of
          Some m \<Rightarrow> client_call self_light (SetColorTemperature (mired_to_kelvin m)) r
        | None \<Rightarrow> r)"

definition power_part :: "client \<Rightarrow> turn_on_kwargs \<Rightarrow> outcome \<Rightarrow> outcome" where
  "power_part self_light kwargs r =
    (case truthy_float (ATTR_TRANSITION kwargs) of
       Some t \<Rightarrow>
         (case truthy_int (ATTR_BRIGHTNESS kwargs) of
            Some b \<Rightarrow>
              client_call self_light (BrightnessTransition (to_device_brightness b) (py_int t)) r
          | None \<Rightarrow> client_call self_light (BrightnessTransition 100 (py_int t)) r)
     | None \<Rightarrow>
         (let r = client_call self_light (SetOn True) r
          in case truthy_int (ATTR_BRIGHTNESS kwargs) of
               Some b \<Rightarrow> client_call self_light (SetBrightness (to_device_brightness b)) r
             | None \<Rightarrow> r))"

definition effect_part :: "client \<Rightarrow> nanoleaf_light \<Rightarrow> turn_on_kwargs \<Rightarrow> outcome \<Rightarrow> outcome" where
  "effect_part self_light self kwargs r =
    (case truthy_str (ATTR_EFFECT kwargs) of
       Some e \<Rightarrow>
         (case self_effects_list self of
            None \<Rightarrow> py_raise TypeError r
          | Some effects \<Rightarrow>
              if e \<notin> set effects then py_raise ValueError r
              else client_call self_light (SetEffect e) r)
     | None \<Rightarrow> r)"

definition consistent :: "client \<Rightarrow> outcome \<Rightarrow> bool" where
  "consistent client r = (case snd r of
      None \<Rightarrow> list_all (\<lambda>c. client c = None) (fst r)
    | Some err \<Rightarrow> fst r \<noteq> [] \<and> client (last (fst r)) = Some err
                 \<and> list_all (\<lambda>c. client c = None) (butlast (fst r)))"

section \<open>The pairing flow (config\_flow.py)\<close>

text \<open>
  The keys of \<^verbatim>\<open>homeassistant.const\<close> used by the flow are constructors (their
  string values are not part of these sources); a stored value is a string or a
  number.
\<close>

datatype conf_key = CONF_HOST | CONF_PORT | CONF_ID | CONF_NAME | CONF_TOKEN

datatype conf_value = Str string | Num int

text \<open>
  What a step returns to the host: the arguments of \<^verbatim>\<open>async_show_form\<close> (step id,
  description placeholders, errors) or of \<^verbatim>\<open>async_create_entry\<close> (title, data),
  or the abort with which the host ends a flow when
  \<^verbatim>\<open>_abort_if_unique_id_configured\<close> finds the unique id among the configured
  entries.
\<close>

datatype flow_result =
    ShowForm string "conf_key \<rightharpoonup> conf_value" "string \<rightharpoonup> string"
  | CreateEntry conf_value "conf_key \<rightharpoonup> conf_value"
  | AbortUniqueIdConfigured

definition async_show_zeroconf_form ::
  "(conf_key \<rightharpoonup> conf_value) \<Rightarrow> (string \<rightharpoonup> string) \<Rightarrow> flow_result" where
  "async_show_zeroconf_form discovery_info errors =
     ShowForm ''zeroconf_confirm'' discovery_info errors"

definition entry_from_data :: "(conf_key \<rightharpoonup> conf_value) \<Rightarrow> error + flow_result" where
  "entry_from_data data = (case data CONF_NAME of
      None \<Rightarrow> Inl KeyError
    | Some title \<Rightarrow> Inr (CreateEntry title data))"

text \<open>
  \<open>async_step_zeroconf_confirm authorize discovery_info user_input\<close>:
  \<open>discovery_info\<close> is \<^verbatim>\<open>self.discovery_info\<close>, and \<open>authorize host port\<close> is the
  outcome of \<^verbatim>\<open>Nanoleaf(host, port=port).authorize()\<close>, the token it stored or
  the exception it raised. The step returns its result and the dictionary
  \<^verbatim>\<open>self.discovery_info\<close> as it is afterwards: \<^verbatim>\<open>data\<close> is the same object, so
  storing the token changes it.
\<close>

definition async_step_zeroconf_confirm ::
  "(conf_value \<Rightarrow> conf_value \<Rightarrow> error + string) \<Rightarrow> (conf_key \<rightharpoonup> conf_value) \<Rightarrow> 'u option
    \<Rightarrow> (error + flow_result) \<times> (conf_key \<rightharpoonup> conf_value)" where
  "async_step_zeroconf_confirm authorize discovery_info user_input =
    (case user_input of
       None \<Rightarrow> (Inr (async_show_zeroconf_form discovery_info Map.empty), discovery_info)
     | Some _ \<Rightarrow>
        (case discovery_info CONF_HOST of
           None \<Rightarrow> (Inl KeyError, discovery_info)
         | Some host \<Rightarrow>
            (case discovery_info CONF_PORT of
               None \<Rightarrow> (Inl KeyError, discovery_info)
             | Some port \<Rightarrow>
                (case authorize host port of
                   Inl NotAuthorizingNewTokens \<Rightarrow>
                     (Inr (async_show_zeroconf_form discovery_info
                             [''base'' \<mapsto> ''failed_to_request_token'']), discovery_info)
                 | Inl Unavailable \<Rightarrow>
                     (Inr (async_show_zeroconf_form discovery_info
                             [''base'' \<mapsto> ''cannot_connect'']), discovery_info)
                 | Inl err \<Rightarrow> (Inl err, discovery_info)
                 | Inr token \<Rightarrow>
                     (let data = discovery_info(CONF_TOKEN \<mapsto> Str token)
                      in (entry_from_data data, data))))))"

text \<open>
  The discovery record passed to \<^verbatim>\<open>async_step_zeroconf\<close>: \<open>zeroconf_x\<close> is the entry
  for the key \<^verbatim>\<open>CONF_X\<close>, and \<open>properties_x\<close> is \<^verbatim>\<open>discovery_info["properties"]["x"]\<close>.
\<close>

record zeroconf_discovery =
  zeroconf_host :: string
  zeroconf_port :: int
  zeroconf_type :: string
  zeroconf_name :: string
  properties_id :: string
  properties_md :: string
  properties_srcvers :: string

text \<open>
  \<^verbatim>\<open>s.replace(old, new)\<close>: every occurrence of \<open>old\<close> in \<open>s\<close>, found from the left
  and without overlap, becomes \<open>new\<close>. The counter of \<open>replace_skip\<close> is the number
  of characters of a matched occurrence still to be passed over.
\<close>

fun replace_skip :: "string \<Rightarrow> string \<Rightarrow> nat \<Rightarrow> string \<Rightarrow> string" where
  "replace_skip old new k [] = []"
| "replace_skip old new k (c # cs) =
     (if 0 < k then replace_skip old new (k - 1) cs
      else if prefix old (c # cs) then new @ replace_skip old new (length old - 1) cs
      else c # replace_skip old new 0 cs)"

definition replace :: "string \<Rightarrow> string \<Rightarrow> string \<Rightarrow> string" where
  "replace s old new =
     (if old = [] then new @ concat (map (\<lambda>c. c # new) s) else replace_skip old new 0 s)"

text \<open>
  \<open>async_step_zeroconf authorize unique_id_configured self_discovery_info discovery_info\<close>:
  \<open>self_discovery_info\<close> is the dictionary \<^verbatim>\<open>self.discovery_info\<close> (empty in a new
  flow) and \<open>unique_id_configured\<close> is the host's test for a configured entry with
  the same unique id. The step stores host, port, id and the cleaned name before
  that test, and goes on to the confirmation step with no user input. The
  host's flow context (unique id, title placeholders) is not modelled.
\<close>

definition async_step_zeroconf ::
  "(conf_value \<Rightarrow> conf_value \<Rightarrow> error + string) \<Rightarrow> (string \<Rightarrow> bool) \<Rightarrow> (conf_key \<rightharpoonup> conf_value)
    \<Rightarrow> zeroconf_discovery \<Rightarrow> (error + flow_result) \<times> (conf_key \<rightharpoonup> conf_value)" where
  "async_step_zeroconf authorize unique_id_configured self_discovery_info discovery_info =
    (let host = zeroconf_host discovery_info;
         port = zeroconf_port discovery_info;
         zctype = zeroconf_type discovery_info;
         name = replace (zeroconf_name discovery_info) (''.'' @ zctype) [];
         id = properties_id discovery_info;
         self_discovery_info = self_discovery_info
           (CONF_HOST \<mapsto> Str host, CONF_PORT \<mapsto> Num port, CONF_ID \<mapsto> Str id, CONF_NAME \<mapsto> Str name)
     in if unique_id_configured id then (Inr AbortUniqueIdConfigured, self_discovery_info)
        else async_step_zeroconf_confirm authorize self_discovery_info (None :: unit option))"

section \<open>Sample values\<close>

text \<open>Concrete inputs at which the theorems below are instantiated.\<close>

definition sample_info :: "int \<Rightarrow> string \<Rightarrow> string list \<Rightarrow> nanoleaf_info" where
  "sample_info b select effects = \<lparr>firmwareVersion = ''3.2.0'', manufacturer = ''Nanoleaf'',
     model = ''NL22'', serialNo = ''S16131A0944'', state_brightness_value = b,
     state_ct_value = 4000, state_hue_value = 120, state_sat_value = 50,
     state_on_value = True, effects_select = select, effects_effectsList = effects\<rparr>"

definition no_kwargs :: turn_on_kwargs where
  "no_kwargs = \<lparr>ATTR_BRIGHTNESS = None, ATTR_HS_COLOR = None, ATTR_COLOR_TEMP = None,
     ATTR_EFFECT = None, ATTR_TRANSITION = None\<rparr>"

definition reciprocal :: "int \<Rightarrow> int" where
  \<comment> \<open>a value for the two colour temperature parameters\<close>
  "reciprocal x = 1000000 div x"

definition responsive :: client where
  \<comment> \<open>a client whose calls all return\<close>
  "responsive c = None"

definition unreachable :: client where
  \<comment> \<open>a client whose device cannot be reached\<close>
  "unreachable c = Some Unavailable"

definition sample_discovery :: zeroconf_discovery where
  "sample_discovery = \<lparr>zeroconf_host = ''192.168.1.20'', zeroconf_port = 16021,
     zeroconf_type = ''_nanoleafapi._tcp.local.'',
     zeroconf_name = ''Shapes 1A2B._nanoleafapi._tcp.local.'',
     properties_id = ''12:34:56:78:9A:BC'', properties_md = ''NL42'',
     properties_srcvers = ''5.1.0''\<rparr>"

definition sample_discovery_info :: "conf_key \<rightharpoonup> conf_value" where
  \<comment> \<open>\<^verbatim>\<open>self.discovery_info\<close> after the discovery of \<open>sample_discovery\<close> in a new flow\<close>
  "sample_discovery_info =
     snd (async_step_zeroconf (\<lambda>host port. Inl Unavailable) (\<lambda>id. False) Map.empty sample_discovery)"

section \<open>Brightness scaling\<close>

lemma c2_55_value: "c2_55 = Float 5742089524897382 (- 51)"
  by code_simp

text \<open>
  The product \<^verbatim>\<open>b * 2.55\<close> truncated, for every device value: the integer part
  of \<open>255 * b / 100\<close>, except at 100, where the float product is just below 255.
\<close>

lemma brightness_table:
  "list_all (\<lambda>b. py_int (float_mul (float_of_int b) c2_55) = (if b = 100 then 254 else 255 * b div 100))
     [0..100]"
  by code_simp

lemma round_table:
  "list_all (\<lambda>b. py_round (float_mul (float_of_int b) c2_55) - 1 \<le> py_int (float_mul (float_of_int b) c2_55)
       \<and> py_int (float_mul (float_of_int b) c2_55) \<le> py_round (float_mul (float_of_int b) c2_55))
     [0..100]"
  by code_simp

lemma to_device_table:
  "list_all (\<lambda>b. to_device_brightness (if b = 100 then 254 else 255 * b div 100) \<in> {b - 1, b}) [0..100]"
  by code_simp

lemma brightness_closed_form:
  assumes "0 \<le> b" and "b \<le> 100"
  shows "py_int (float_mul (float_of_int b) c2_55) = (if b = 100 then 254 else 255 * b div 100)"
proof -
  have "b \<in> set [0..100]" using assms by simp
  then show ?thesis using brightness_table unfolding list_all_iff by blast
qed

lemma brightness_positive:
  assumes "0 < b" and "b \<le> 100"
  shows "py_int (float_mul (float_of_int b) c2_55) \<noteq> 0"
proof -
  have "2 \<le> 255 * b div 100" using assms by linarith
  then show ?thesis using assms by (simp add: brightness_closed_form)
qed

lemma update_brightness:
  "self_brightness (snd (update (Inr info) self)) = Some (state_brightness_value info)"
  by (simp add: update_def Let_def)

lemma brightness_example_1: "py_int (float_mul (float_of_int 1) c2_55) = 2"
  by code_simp

lemma round_example_1: "py_round (float_mul (float_of_int 1) c2_55) = 3"
  by code_simp



text \<open>
  Claim C2, as stated (the exposed brightness is \<^verbatim>\<open>round(b * 2.55)\<close>), fails for the
  device value 1: the property returns \<^verbatim>\<open>int(1 * 2.55)\<close>, which is 2, and
  \<^verbatim>\<open>round(1 * 2.55)\<close> is 3.
\<close>

theorem brightness_not_round_counterexample:
  "brightness (snd (update (Inr (sample_info 1 ''Rainbow'' [''Rainbow''])) (init ''Shapes''))) = Some 2
   \<and> py_round (float_mul (float_of_int 1) c2_55) = 3"
  by (simp add: brightness_def update_brightness sample_info_def brightness_example_1 round_example_1)

text \<open>
  Claim C2, amended: for every device brightness \<open>b\<close> between 0 and 100 cached by a
  successful update, the exposed brightness is \<^verbatim>\<open>int(b * 2.55)\<close>, the float product
  truncated toward zero; it is \<^verbatim>\<open>round(b * 2.55)\<close> or one less.
\<close>

theorem brightness_exposed:
  assumes "0 \<le> b" and "b \<le> 100" and "state_brightness_value info = b"
  shows "brightness (snd (update (Inr info) self)) = Some (py_int (float_mul (float_of_int b) c2_55))
       \<and> py_round (float_mul (float_of_int b) c2_55) - 1 \<le> py_int (float_mul (float_of_int b) c2_55)
       \<and> py_int (float_mul (float_of_int b) c2_55) \<le> py_round (float_mul (float_of_int b) c2_55)"
proof -
  have mem: "b \<in> set [0..100]" using assms by simp
  have exposed: "brightness (snd (update (Inr info) self)) = Some (py_int (float_mul (float_of_int b) c2_55))"
    using assms(3) by (simp add: brightness_def update_brightness)
  have "py_round (float_mul (float_of_int b) c2_55) - 1 \<le> py_int (float_mul (float_of_int b) c2_55)
       \<and> py_int (float_mul (float_of_int b) c2_55) \<le> py_round (float_mul (float_of_int b) c2_55)"
    using round_table mem unfolding list_all_iff by blast
  with exposed show ?thesis by blast
qed

theorem brightness_exposed_witness:
  "(0::int) \<le> 100 \<and> (100::int) \<le> 100
   \<and> state_brightness_value (sample_info 100 ''Rainbow'' [''Rainbow'']) = 100
   \<and> brightness (snd (update (Inr (sample_info 100 ''Rainbow'' [''Rainbow''])) (init ''Shapes''))) = Some 254
   \<and> py_round (float_mul (float_of_int 100) c2_55) - 1 \<le> 254
   \<and> 254 \<le> py_round (float_mul (float_of_int 100) c2_55)"
  using brightness_exposed [of 100 "sample_info 100 ''Rainbow'' [''Rainbow'']" "init ''Shapes''"]
  by (simp add: sample_info_def brightness_closed_form)

text \<open>
  Turning on with a non-zero brightness and no other argument: the device is
  switched on and, when that call returns, its brightness is set.
\<close>

lemma turn_on_brightness_only:
  assumes "x \<noteq> 0"
  shows "turn_on client mired_to_kelvin self (no_kwargs\<lparr>ATTR_BRIGHTNESS := Some x\<rparr>)
          = (if client (SetOn True) = None
             then ([SetOn True, SetBrightness (to_device_brightness x)],
                   client (SetBrightness (to_device_brightness x)))
             else ([SetOn True], client (SetOn True)))"
  using assms
  by (cases "client (SetOn True)")
     (simp_all add: turn_on_def client_call_def no_kwargs_def truthy_int_def truthy_float_def
        truthy_str_def Let_def)

text \<open>
  Claim C3: for every device brightness \<open>b\<close> between 0 and 100, the exposed value \<open>x\<close>
  mapped back by \<^verbatim>\<open>int(x / 2.55)\<close>, the value \<open>turn_on\<close> sends, is within 1 of \<open>b\<close>;
  for \<open>b > 0\<close>, turning on with brightness \<open>x\<close> and no other argument switches the
  device on and, when that call returns, sets the device brightness to that
  value.
\<close>

theorem brightness_round_trip:
  assumes "0 \<le> b" and "b \<le> 100"
  shows "\<exists>x. brightness (self\<lparr>self_brightness := Some b\<rparr>) = Some x
           \<and> \<bar>to_device_brightness x - b\<bar> \<le> 1
           \<and> (0 < b \<longrightarrow>
                turn_on client mired_to_kelvin self (no_kwargs\<lparr>ATTR_BRIGHTNESS := Some x\<rparr>)
                  = (if client (SetOn True) = None
                     then ([SetOn True, SetBrightness (to_device_brightness x)],
                           client (SetBrightness (to_device_brightness x)))
                     else ([SetOn True], client (SetOn True))))"
proof -
  let ?x = "py_int (float_mul (float_of_int b) c2_55)"
  have mem: "b \<in> set [0..100]" using assms by simp
  have exposed: "brightness (self\<lparr>self_brightness := Some b\<rparr>) = Some ?x"
    by (simp add: brightness_def)
  have "to_device_brightness (if b = 100 then 254 else 255 * b div 100) \<in> {b - 1, b}"
    using to_device_table mem unfolding list_all_iff by blast
  then have "to_device_brightness ?x \<in> {b - 1, b}"
    using assms by (simp only: brightness_closed_form)
  then have near: "\<bar>to_device_brightness ?x - b\<bar> \<le> 1" by auto
  have "turn_on client mired_to_kelvin self (no_kwargs\<lparr>ATTR_BRIGHTNESS := Some ?x\<rparr>)
          = (if client (SetOn True) = None
             then ([SetOn True, SetBrightness (to_device_brightness ?x)],
                   client (SetBrightness (to_device_brightness ?x)))
             else ([SetOn True], client (SetOn True)))" if "0 < b"
    using brightness_positive [OF that assms(2)] by (rule turn_on_brightness_only)
  with exposed near show ?thesis by blast
qed

theorem brightness_round_trip_witness:
  "(0::int) \<le> 100 \<and> (100::int) \<le> 100 \<and> (0::int) < 100
   \<and> (\<exists>x. brightness ((init ''Shapes'')\<lparr>self_brightness := Some 100\<rparr>) = Some x
          \<and> \<bar>to_device_brightness x - 100\<bar> \<le> 1
          \<and> turn_on responsive reciprocal (init ''Shapes'') (no_kwargs\<lparr>ATTR_BRIGHTNESS := Some x\<rparr>)
               = ([SetOn True, SetBrightness (to_device_brightness x)], None))"
  using brightness_round_trip [of 100 "init ''Shapes''" responsive reciprocal]
  by (simp add: responsive_def)

section \<open>Polling\<close>

text \<open>
  Claim C4: after a successful update the exposed effect, when there is one, is a
  member of the exposed effect list; and when the effect name reported by the
  device is not in the reported list, the exposed effect is \<open>None\<close> and the exposed
  colour temperature and hue and saturation come from the state fields \<open>ct\<close>,
  \<open>hue\<close> and \<open>sat\<close>.
\<close>

theorem update_effect_filter:
  "fst (update (Inr info) self) = None
   \<and> (\<forall>e. effect (snd (update (Inr info) self)) = Some e \<longrightarrow>
         (\<exists>l. effect_list (snd (update (Inr info) self)) = Some l \<and> e \<in> set l))
   \<and> (effects_select info \<notin> set (effects_effectsList info) \<longrightarrow>
         effect (snd (update (Inr info) self)) = None
       \<and> color_temp kelvin_to_mired (snd (update (Inr info) self))
           = Some (kelvin_to_mired (state_ct_value info))
       \<and> hs_color (snd (update (Inr info) self))
           = Some (state_hue_value info, state_sat_value info))"
  by (simp add: update_def Let_def effect_def effect_list_def color_temp_def hs_color_def)

theorem update_effect_filter_witness:
  "effects_select (sample_info 40 ''*Solid*'' [''Rainbow'', ''Forest'']) \<notin> set [''Rainbow'', ''Forest'']
   \<and> effect (snd (update (Inr (sample_info 40 ''*Solid*'' [''Rainbow'', ''Forest''])) (init ''Shapes''))) = None
   \<and> color_temp reciprocal
        (snd (update (Inr (sample_info 40 ''*Solid*'' [''Rainbow'', ''Forest''])) (init ''Shapes'')))
        = Some 250
   \<and> hs_color (snd (update (Inr (sample_info 40 ''*Solid*'' [''Rainbow'', ''Forest''])) (init ''Shapes'')))
        = Some (120, 50)
   \<and> effect (snd (update (Inr (sample_info 40 ''Forest'' [''Rainbow'', ''Forest''])) (init ''Shapes'')))
        = Some ''Forest''
   \<and> (\<exists>l. effect_list (snd (update (Inr (sample_info 40 ''Forest'' [''Rainbow'', ''Forest''])) (init ''Shapes'')))
              = Some l \<and> ''Forest'' \<in> set l)"
  using update_effect_filter [of "sample_info 40 ''*Solid*'' [''Rainbow'', ''Forest'']" "init ''Shapes''" reciprocal]
    update_effect_filter [of "sample_info 40 ''Forest'' [''Rainbow'', ''Forest'']" "init ''Shapes''" reciprocal]
  by (simp add: sample_info_def reciprocal_def effect_def update_def Let_def)

text \<open>
  Claim C5: when reading the device info raises \<open>Unavailable\<close>, \<open>update\<close> raises
  nothing, the entity becomes unavailable, and every other cached field, and so
  every other exposed property, keeps its value.
\<close>

theorem update_unavailable:
  "fst (update (Inl Unavailable) self) = None
   \<and> snd (update (Inl Unavailable) self) = self\<lparr>self_available := False\<rparr>
   \<and> available (snd (update (Inl Unavailable) self)) = False
   \<and> self_brightness (snd (update (Inl Unavailable) self)) = self_brightness self
   \<and> self_color_temp (snd (update (Inl Unavailable) self)) = self_color_temp self
   \<and> self_effect (snd (update (Inl Unavailable) self)) = self_effect self
   \<and> self_effects_list (snd (update (Inl Unavailable) self)) = self_effects_list self
   \<and> self_hs_color (snd (update (Inl Unavailable) self)) = self_hs_color self
   \<and> self_state (snd (update (Inl Unavailable) self)) = self_state self
   \<and> self_firmwareVersion (snd (update (Inl Unavailable) self)) = self_firmwareVersion self
   \<and> self_manufacturer (snd (update (Inl Unavailable) self)) = self_manufacturer self
   \<and> self_model (snd (update (Inl Unavailable) self)) = self_model self
   \<and> self_unique_id (snd (update (Inl Unavailable) self)) = self_unique_id self
   \<and> self_name (snd (update (Inl Unavailable) self)) = self_name self"
  by (simp add: update_def available_def)

section \<open>Turning on and off\<close>

subsection \<open>The parts of a command\<close>

lemma turn_on_parts:
  "turn_on client mired_to_kelvin self kwargs
     = effect_part client self kwargs
         (power_part client kwargs (colour_part client mired_to_kelvin kwargs ([], None)))"
  by (simp add: turn_on_def effect_part_def power_part_def colour_part_def Let_def)

lemma fst_client_call: "fst (client_call client c r) = (if snd r = None then fst r @ [c] else fst r)"
  by (cases "snd r") (simp_all add: client_call_def)

lemma snd_client_call: "snd (client_call client c r) = (if snd r = None then client c else snd r)"
  by (cases "snd r") (simp_all add: client_call_def)

lemma fst_py_raise: "fst (py_raise err r) = fst r"
  by (cases "snd r") (simp_all add: py_raise_def)

lemma snd_py_raise: "snd (py_raise err r) = (if snd r = None then Some err else snd r)"
  by (cases "snd r") (simp_all add: py_raise_def)

lemma consistent_init: "consistent client ([], None)"
  by (simp add: consistent_def)

lemma consistent_client_call:
  assumes "consistent client r"
  shows "consistent client (client_call client c r)"
proof (cases "snd r")
  case None
  with assms show ?thesis
    by (cases "client c") (simp_all add: consistent_def fst_client_call snd_client_call)
next
  case (Some err)
  with assms show ?thesis
    by (simp add: consistent_def fst_client_call snd_client_call)
qed

lemma consistent_colour_part:
  "consistent client r \<Longrightarrow> consistent client (colour_part client mired_to_kelvin kwargs r)"
  by (simp add: colour_part_def Let_def consistent_client_call split: option.split prod.split)

lemma consistent_power_part:
  "consistent client r \<Longrightarrow> consistent client (power_part client kwargs r)"
  by (simp add: power_part_def Let_def consistent_client_call split: option.split)

lemma colour_part_calls:
  "c \<in> set (fst (colour_part client mired_to_kelvin kwargs r)) \<Longrightarrow> c \<in> set (fst r) \<or> is_colour_call c"
  by (auto simp: colour_part_def Let_def fst_client_call snd_client_call is_colour_call_def
        split: option.splits prod.splits if_splits)

lemma power_part_calls:
  "c \<in> set (fst (power_part client kwargs r)) \<Longrightarrow>
     c \<in> set (fst r)
     \<or> (case truthy_float (ATTR_TRANSITION kwargs) of
          Some t \<Rightarrow> c = BrightnessTransition
                        (case truthy_int (ATTR_BRIGHTNESS kwargs) of
                           Some b \<Rightarrow> to_device_brightness b | None \<Rightarrow> 100) (py_int t)
        | None \<Rightarrow> c = SetOn True
                  \<or> (\<exists>b. truthy_int (ATTR_BRIGHTNESS kwargs) = Some b
                          \<and> c = SetBrightness (to_device_brightness b)))"
  by (auto simp: power_part_def Let_def fst_client_call snd_client_call
        split: option.splits if_splits)

lemma effect_part_calls:
  "c \<in> set (fst (effect_part client self kwargs r)) \<Longrightarrow>
     c \<in> set (fst r)
     \<or> (\<exists>e effects. truthy_str (ATTR_EFFECT kwargs) = Some e \<and> self_effects_list self = Some effects
            \<and> e \<in> set effects \<and> c = SetEffect e)"
  by (auto simp: effect_part_def fst_client_call fst_py_raise split: option.splits if_splits)

lemma colour_part_mono: "set (fst r) \<subseteq> set (fst (colour_part client mired_to_kelvin kwargs r))"
  by (auto simp: colour_part_def Let_def fst_client_call snd_client_call split: option.splits prod.splits)

lemma power_part_mono: "set (fst r) \<subseteq> set (fst (power_part client kwargs r))"
  by (auto simp: power_part_def Let_def fst_client_call snd_client_call split: option.splits)

lemma effect_part_mono: "set (fst r) \<subseteq> set (fst (effect_part client self kwargs r))"
  by (auto simp: effect_part_def fst_client_call fst_py_raise split: option.splits)

text \<open>The calls of a command are colour calls, the calls of the middle part, or the effect call.\<close>

lemma turn_on_calls:
  assumes "c \<in> set (fst (turn_on client mired_to_kelvin self kwargs))"
  shows "is_colour_call c
     \<or> (case truthy_float (ATTR_TRANSITION kwargs) of
          Some t \<Rightarrow> c = BrightnessTransition
                        (case truthy_int (ATTR_BRIGHTNESS kwargs) of
                           Some b \<Rightarrow> to_device_brightness b | None \<Rightarrow> 100) (py_int t)
        | None \<Rightarrow> c = SetOn True
                  \<or> (\<exists>b. truthy_int (ATTR_BRIGHTNESS kwargs) = Some b
                          \<and> c = SetBrightness (to_device_brightness b)))
     \<or> (\<exists>e effects. truthy_str (ATTR_EFFECT kwargs) = Some e \<and> self_effects_list self = Some effects
            \<and> e \<in> set effects \<and> c = SetEffect e)"
proof -
  let ?r1 = "colour_part client mired_to_kelvin kwargs ([], None)"
  let ?r2 = "power_part client kwargs ?r1"
  from assms have "c \<in> set (fst (effect_part client self kwargs ?r2))"
    by (simp add: turn_on_parts)
  from effect_part_calls [OF this] show ?thesis
  proof
    assume "c \<in> set (fst ?r2)"
    from power_part_calls [OF this] show ?thesis
    proof
      assume "c \<in> set (fst ?r1)"
      from colour_part_calls [OF this] show ?thesis by simp
    qed simp
  qed simp
qed

text \<open>When the colour calls made returned, the command got past them.\<close>

lemma colour_part_only:
  "c \<in> set (fst (colour_part client mired_to_kelvin kwargs ([], None))) \<Longrightarrow> is_colour_call c"
  using colour_part_calls [of c client mired_to_kelvin kwargs "([], None)"] by simp

lemma turn_on_mono:
  "set (fst (colour_part client mired_to_kelvin kwargs ([], None)))
     \<subseteq> set (fst (turn_on client mired_to_kelvin self kwargs))"
  "set (fst (power_part client kwargs (colour_part client mired_to_kelvin kwargs ([], None))))
     \<subseteq> set (fst (turn_on client mired_to_kelvin self kwargs))"
  unfolding turn_on_parts using power_part_mono effect_part_mono by blast+

lemma colour_part_returned:
  assumes "colour_calls_return client (fst (turn_on client mired_to_kelvin self kwargs))"
  shows "snd (colour_part client mired_to_kelvin kwargs ([], None)) = None"
proof (rule ccontr)
  let ?r1 = "colour_part client mired_to_kelvin kwargs ([], None)"
  assume "snd ?r1 \<noteq> None"
  then obtain err where err: "snd ?r1 = Some err" by blast
  have "consistent client ?r1" by (simp add: consistent_colour_part consistent_init)
  with err have ne: "fst ?r1 \<noteq> []" and raised: "client (last (fst ?r1)) = Some err"
    by (simp_all add: consistent_def)
  from ne have mem: "last (fst ?r1) \<in> set (fst ?r1)" by simp
  then have "is_colour_call (last (fst ?r1))" by (rule colour_part_only)
  moreover from mem have "last (fst ?r1) \<in> set (fst (turn_on client mired_to_kelvin self kwargs))"
    using turn_on_mono(1) by blast
  ultimately have "client (last (fst ?r1)) = None"
    using assms by (simp add: colour_calls_return_def list_all_iff)
  with raised show False by simp
qed

text \<open>The first call of the middle part is made whenever the colour calls made returned.\<close>

lemma power_call_made:
  assumes "colour_calls_return client (fst (turn_on client mired_to_kelvin self kwargs))"
  shows "(case truthy_float (ATTR_TRANSITION kwargs) of
            Some t \<Rightarrow> BrightnessTransition
                        (case truthy_int (ATTR_BRIGHTNESS kwargs) of
                           Some b \<Rightarrow> to_device_brightness b | None \<Rightarrow> 100) (py_int t)
          | None \<Rightarrow> SetOn True)
         \<in> set (fst (turn_on client mired_to_kelvin self kwargs))"
proof -
  let ?r1 = "colour_part client mired_to_kelvin kwargs ([], None)"
  have "snd ?r1 = None" using assms by (rule colour_part_returned)
  then have "(case truthy_float (ATTR_TRANSITION kwargs) of
            Some t \<Rightarrow> BrightnessTransition
                        (case truthy_int (ATTR_BRIGHTNESS kwargs) of
                           Some b \<Rightarrow> to_device_brightness b | None \<Rightarrow> 100) (py_int t)
          | None \<Rightarrow> SetOn True) \<in> set (fst (power_part client kwargs ?r1))"
    by (simp add: power_part_def Let_def fst_client_call snd_client_call split: option.split)
  then show ?thesis using turn_on_mono(2) by blast
qed

text \<open>What the command raises.\<close>

lemma turn_on_unknown_effect_raise:
  assumes "self_effects_list self = Some effects" and "ATTR_EFFECT kwargs = Some e"
    and "e \<notin> set effects" and "e \<noteq> []"
  shows "turn_on client mired_to_kelvin self kwargs
           = py_raise ValueError
               (power_part client kwargs (colour_part client mired_to_kelvin kwargs ([], None)))"
  using assms by (simp add: turn_on_parts effect_part_def truthy_str_def)

lemma consistent_before_effect:
  "consistent client (power_part client kwargs (colour_part client mired_to_kelvin kwargs ([], None)))"
  by (simp add: consistent_power_part consistent_colour_part consistent_init)

lemma consistent_raised:
  assumes "consistent client r"
  shows "client_raised client (fst r) \<longleftrightarrow> snd r \<noteq> None"
proof (cases "snd r")
  case None
  with assms show ?thesis by (simp add: consistent_def client_raised_def list_all_iff list_ex_iff)
next
  case (Some err)
  with assms have "fst r \<noteq> []" and "client (last (fst r)) = Some err" by (simp_all add: consistent_def)
  then have "last (fst r) \<in> set (fst r)" and "client (last (fst r)) \<noteq> None" by simp_all
  then show ?thesis using Some by (auto simp: client_raised_def list_ex_iff)
qed


subsection \<open>Unknown effects\<close>

text \<open>
  Claim C1, as stated (an unknown effect fails with \<open>ValueError\<close> before any device
  call), fails. With the effect list \<^verbatim>\<open>["Rainbow"]\<close> and the only argument
  \<^verbatim>\<open>effect="Unknown"\<close>, \<open>turn_on\<close> first switches the device on: when that call
  returns it raises \<open>ValueError\<close> after it, and when the device cannot be reached
  the call raises \<open>Unavailable\<close> and the effect is never checked. With the empty
  name, which is not in the list either, \<open>turn_on\<close> raises nothing.
\<close>

theorem turn_on_unknown_effect_counterexample:
  "turn_on responsive reciprocal ((init ''Shapes'')\<lparr>self_effects_list := Some [''Rainbow'']\<rparr>)
     (no_kwargs\<lparr>ATTR_EFFECT := Some ''Unknown''\<rparr>) = ([SetOn True], Some ValueError)
   \<and> turn_on unreachable reciprocal ((init ''Shapes'')\<lparr>self_effects_list := Some [''Rainbow'']\<rparr>)
     (no_kwargs\<lparr>ATTR_EFFECT := Some ''Unknown''\<rparr>) = ([SetOn True], Some Unavailable)
   \<and> turn_on responsive reciprocal ((init ''Shapes'')\<lparr>self_effects_list := Some [''Rainbow'']\<rparr>)
     (no_kwargs\<lparr>ATTR_EFFECT := Some []\<rparr>) = ([SetOn True], None)"
  by (simp add: turn_on_def client_call_def py_raise_def truthy_int_def truthy_float_def truthy_str_def
        no_kwargs_def init_def responsive_def unreachable_def)

text \<open>
  Claim C1, amended: a call of \<open>turn_on\<close> with an effect name that is not in the
  last-known effect list makes no effect call, whatever the other arguments are;
  and if the name is not empty the call fails: with \<open>ValueError\<close> when no client
  call made before the check raised, and otherwise with the exception of the
  client call that raised, which is the last call made.
\<close>

theorem turn_on_unknown_effect:
  assumes "self_effects_list self = Some effects" and "ATTR_EFFECT kwargs = Some e"
    and "e \<notin> set effects"
  shows "(\<forall>x. SetEffect x \<notin> set (fst (turn_on client mired_to_kelvin self kwargs)))
       \<and> (e \<noteq> [] \<longrightarrow>
            snd (turn_on client mired_to_kelvin self kwargs) \<noteq> None
          \<and> (\<not> client_raised client (fst (turn_on client mired_to_kelvin self kwargs)) \<longrightarrow>
                snd (turn_on client mired_to_kelvin self kwargs) = Some ValueError)
          \<and> (client_raised client (fst (turn_on client mired_to_kelvin self kwargs)) \<longrightarrow>
                snd (turn_on client mired_to_kelvin self kwargs)
                  = client (last (fst (turn_on client mired_to_kelvin self kwargs)))))"
proof -
  let ?r2 = "power_part client kwargs (colour_part client mired_to_kelvin kwargs ([], None))"
  have no_effect: "SetEffect x \<notin> set (fst (turn_on client mired_to_kelvin self kwargs))" for x
  proof
    assume "SetEffect x \<in> set (fst (turn_on client mired_to_kelvin self kwargs))"
    from turn_on_calls [OF this] show False
      using assms by (auto simp: is_colour_call_def truthy_str_def split: option.splits if_splits)
  qed
  have fails: "snd (turn_on client mired_to_kelvin self kwargs) \<noteq> None
          \<and> (\<not> client_raised client (fst (turn_on client mired_to_kelvin self kwargs)) \<longrightarrow>
                snd (turn_on client mired_to_kelvin self kwargs) = Some ValueError)
          \<and> (client_raised client (fst (turn_on client mired_to_kelvin self kwargs)) \<longrightarrow>
                snd (turn_on client mired_to_kelvin self kwargs)
                  = client (last (fst (turn_on client mired_to_kelvin self kwargs))))" if "e \<noteq> []"
  proof -
    have eq: "turn_on client mired_to_kelvin self kwargs = py_raise ValueError ?r2"
      using assms that by (rule turn_on_unknown_effect_raise)
    have cons: "consistent client ?r2" by (rule consistent_before_effect)
    show ?thesis
    proof (cases "snd ?r2")
      case None
      then show ?thesis
        using consistent_raised [OF cons] by (simp add: eq fst_py_raise snd_py_raise)
    next
      case (Some err)
      moreover from cons Some have "client (last (fst ?r2)) = Some err" by (simp add: consistent_def)
      ultimately show ?thesis
        using consistent_raised [OF cons] by (simp add: eq fst_py_raise snd_py_raise)
    qed
  qed
  from no_effect fails show ?thesis by blast
qed

theorem turn_on_unknown_effect_witness:
  "self_effects_list ((init ''Shapes'')\<lparr>self_effects_list := Some [''Rainbow'']\<rparr>) = Some [''Rainbow'']
   \<and> ATTR_EFFECT (no_kwargs\<lparr>ATTR_EFFECT := Some ''Unknown'', ATTR_COLOR_TEMP := Some 250\<rparr>) = Some ''Unknown''
   \<and> ''Unknown'' \<notin> set [''Rainbow''] \<and> ''Unknown'' \<noteq> []
   \<and> \<not> client_raised responsive [SetColorTemperature 4000, SetOn True]
   \<and> turn_on responsive reciprocal ((init ''Shapes'')\<lparr>self_effects_list := Some [''Rainbow'']\<rparr>)
        (no_kwargs\<lparr>ATTR_EFFECT := Some ''Unknown'', ATTR_COLOR_TEMP := Some 250\<rparr>)
        = ([SetColorTemperature 4000, SetOn True], Some ValueError)
   \<and> client_raised unreachable [SetColorTemperature 4000]
   \<and> turn_on unreachable reciprocal ((init ''Shapes'')\<lparr>self_effects_list := Some [''Rainbow'']\<rparr>)
        (no_kwargs\<lparr>ATTR_EFFECT := Some ''Unknown'', ATTR_COLOR_TEMP := Some 250\<rparr>)
        = ([SetColorTemperature 4000], Some Unavailable)"
  using turn_on_unknown_effect [of "(init ''Shapes'')\<lparr>self_effects_list := Some [''Rainbow'']\<rparr>"
      "[''Rainbow'']" "no_kwargs\<lparr>ATTR_EFFECT := Some ''Unknown'', ATTR_COLOR_TEMP := Some 250\<rparr>"
      "''Unknown''" responsive reciprocal]
    turn_on_unknown_effect [of "(init ''Shapes'')\<lparr>self_effects_list := Some [''Rainbow'']\<rparr>"
      "[''Rainbow'']" "no_kwargs\<lparr>ATTR_EFFECT := Some ''Unknown'', ATTR_COLOR_TEMP := Some 250\<rparr>"
      "''Unknown''" unreachable reciprocal]
  by (simp add: turn_on_def client_call_def py_raise_def truthy_int_def truthy_float_def truthy_str_def
        no_kwargs_def init_def reciprocal_def responsive_def unreachable_def client_raised_def)

subsection \<open>Transitions\<close>




text \<open>
  Claim C7, as stated (a ramp and no immediate off whenever a transition duration
  is given), fails for the duration 0: a zero transition is false, and \<open>turn_off\<close>
  switches the device off at once.
\<close>

theorem turn_off_zero_transition_counterexample:
  "turn_off responsive (Some (Float 0 0)) = ([SetOn False], None)"
  by (simp add: turn_off_def truthy_float_def py_bool_float_def client_call_def responsive_def)

text \<open>
  Claim C7, amended: \<open>turn_off\<close> with a non-zero transition duration \<open>t\<close> tells the
  device to ramp the brightness to 0 over \<^verbatim>\<open>int(t)\<close> seconds and makes no other
  call, so no immediate off; with no transition, or a transition of zero, it
  makes one call, the immediate off. What that one call raises, \<open>turn_off\<close>
  raises.
\<close>

theorem turn_off_transition:
  "(\<forall>t. transition = Some t \<and> py_bool_float t \<longrightarrow>
        turn_off client transition
          = ([BrightnessTransition 0 (py_int t)], client (BrightnessTransition 0 (py_int t))))
   \<and> (transition = None \<or> (\<exists>t. transition = Some t \<and> \<not> py_bool_float t) \<longrightarrow>
        turn_off client transition = ([SetOn False], client (SetOn False)))"
  by (auto simp: turn_off_def truthy_float_def client_call_def)

theorem turn_off_transition_witness:
  "py_bool_float (Float 3 0)
   \<and> turn_off responsive (Some (Float 3 0)) = ([BrightnessTransition 0 3], None)
   \<and> turn_off unreachable (Some (Float 3 0)) = ([BrightnessTransition 0 3], Some Unavailable)
   \<and> turn_off responsive None = ([SetOn False], None)"
  using turn_off_transition [of "Some (Float 3 0)" responsive]
    turn_off_transition [of "Some (Float 3 0)" unreachable]
    turn_off_transition [of None responsive]
  by (simp add: py_bool_float_def py_int_def responsive_def unreachable_def)

text \<open>
  Claim C9: \<open>turn_on\<close> with a non-zero transition duration never sets the device's
  \<open>on\<close> attribute, nor its brightness directly: besides the calls for colour,
  colour temperature and effect it makes a brightness ramp only, and makes it
  when the colour calls made returned. Whenever the \<open>on\<close> attribute is set, it is
  set to \<open>True\<close>, and the transition is absent or zero.
\<close>

theorem turn_on_transition_no_on:
  "(\<forall>t. ATTR_TRANSITION kwargs = Some t \<and> py_bool_float t \<longrightarrow>
       (\<forall>v. SetOn v \<notin> set (fst (turn_on client mired_to_kelvin self kwargs)))
     \<and> (\<forall>v. SetBrightness v \<notin> set (fst (turn_on client mired_to_kelvin self kwargs)))
     \<and> (colour_calls_return client (fst (turn_on client mired_to_kelvin self kwargs)) \<longrightarrow>
          (\<exists>b. BrightnessTransition b (py_int t) \<in> set (fst (turn_on client mired_to_kelvin self kwargs)))))
   \<and> (\<forall>v. SetOn v \<in> set (fst (turn_on client mired_to_kelvin self kwargs)) \<longrightarrow>
         v \<and> truthy_float (ATTR_TRANSITION kwargs) = None)"
proof -
  have on: "v \<and> truthy_float (ATTR_TRANSITION kwargs) = None"
    if "SetOn v \<in> set (fst (turn_on client mired_to_kelvin self kwargs))" for v
    using turn_on_calls [OF that] by (auto simp: is_colour_call_def split: option.splits)
  have direct: "SetBrightness v \<notin> set (fst (turn_on client mired_to_kelvin self kwargs))"
    if "ATTR_TRANSITION kwargs = Some t" and "py_bool_float t" for t v
  proof
    assume "SetBrightness v \<in> set (fst (turn_on client mired_to_kelvin self kwargs))"
    from turn_on_calls [OF this] show False
      using that by (auto simp: is_colour_call_def truthy_float_def split: option.splits)
  qed
  have ramp: "\<exists>b. BrightnessTransition b (py_int t) \<in> set (fst (turn_on client mired_to_kelvin self kwargs))"
    if "ATTR_TRANSITION kwargs = Some t" and "py_bool_float t"
      and "colour_calls_return client (fst (turn_on client mired_to_kelvin self kwargs))" for t
    using power_call_made [OF that(3)] that(1,2) by (auto simp: truthy_float_def)
  have no_on: "SetOn v \<notin> set (fst (turn_on client mired_to_kelvin self kwargs))"
    if "ATTR_TRANSITION kwargs = Some t" and "py_bool_float t" for t v
    using on [of v] that by (auto simp: truthy_float_def)
  from on direct ramp no_on show ?thesis by blast
qed

theorem turn_on_transition_no_on_witness:
  "ATTR_TRANSITION (no_kwargs\<lparr>ATTR_TRANSITION := Some (Float 5 0), ATTR_HS_COLOR := Some (Float 120 0, Float 50 0),
       ATTR_EFFECT := Some ''Rainbow''\<rparr>) = Some (Float 5 0)
   \<and> py_bool_float (Float 5 0)
   \<and> colour_calls_return responsive
        [SetHue 120, SetSaturation 50, BrightnessTransition 100 5, SetEffect ''Rainbow'']
   \<and> turn_on responsive reciprocal ((init ''Shapes'')\<lparr>self_effects_list := Some [''Rainbow'']\<rparr>)
        (no_kwargs\<lparr>ATTR_TRANSITION := Some (Float 5 0), ATTR_HS_COLOR := Some (Float 120 0, Float 50 0),
           ATTR_EFFECT := Some ''Rainbow''\<rparr>)
       = ([SetHue 120, SetSaturation 50, BrightnessTransition 100 5, SetEffect ''Rainbow''], None)
   \<and> SetOn True \<in> set (fst (turn_on responsive reciprocal (init ''Shapes'') no_kwargs))
   \<and> truthy_float (ATTR_TRANSITION no_kwargs) = None"
  using turn_on_transition_no_on [of "no_kwargs\<lparr>ATTR_TRANSITION := Some (Float 5 0),
        ATTR_HS_COLOR := Some (Float 120 0, Float 50 0), ATTR_EFFECT := Some ''Rainbow''\<rparr>"
      responsive reciprocal "(init ''Shapes'')\<lparr>self_effects_list := Some [''Rainbow'']\<rparr>"]
    turn_on_transition_no_on [of no_kwargs responsive reciprocal "init ''Shapes''"]
  by (simp add: turn_on_def client_call_def no_kwargs_def init_def py_bool_float_def py_int_def
        truthy_int_def truthy_float_def truthy_str_def responsive_def colour_calls_return_def)

lemma power_part_falsy_brightness:
  "ATTR_BRIGHTNESS kwargs = Some 0 \<Longrightarrow>
     power_part client (kwargs\<lparr>ATTR_BRIGHTNESS := None\<rparr>) r = power_part client kwargs r"
  by (simp add: power_part_def truthy_int_def split: option.split)

lemma power_part_falsy_transition:
  "ATTR_TRANSITION kwargs = Some t \<Longrightarrow> \<not> py_bool_float t \<Longrightarrow>
     power_part client (kwargs\<lparr>ATTR_TRANSITION := None\<rparr>) r = power_part client kwargs r"
  by (simp add: power_part_def truthy_float_def split: option.split)

text \<open>
  Claim C10: the arguments are tested for their truth value, not for presence.
  With brightness 0, \<open>turn_on\<close> does what it does with no brightness: together
  with a non-zero transition it ramps to the default target 100, and with no
  transition it makes no brightness call and no ramp. With a transition of zero
  it does what it does with no transition, and switches the device on at once.
  The ramp and the switching on follow the colour calls, and are made when
  those made returned.
\<close>

theorem turn_on_truthiness:
  "(ATTR_BRIGHTNESS kwargs = Some 0 \<longrightarrow>
      turn_on client mired_to_kelvin self kwargs
        = turn_on client mired_to_kelvin self (kwargs\<lparr>ATTR_BRIGHTNESS := None\<rparr>))
   \<and> (\<forall>t. ATTR_BRIGHTNESS kwargs = Some 0 \<and> ATTR_TRANSITION kwargs = Some t \<and> py_bool_float t
          \<and> colour_calls_return client (fst (turn_on client mired_to_kelvin self kwargs)) \<longrightarrow>
        BrightnessTransition 100 (py_int t) \<in> set (fst (turn_on client mired_to_kelvin self kwargs)))
   \<and> (ATTR_BRIGHTNESS kwargs = Some 0 \<and> ATTR_TRANSITION kwargs = None \<longrightarrow>
        (\<forall>v. SetBrightness v \<notin> set (fst (turn_on client mired_to_kelvin self kwargs)))
      \<and> (\<forall>v d. BrightnessTransition v d \<notin> set (fst (turn_on client mired_to_kelvin self kwargs))))
   \<and> (\<forall>t. ATTR_TRANSITION kwargs = Some t \<and> \<not> py_bool_float t \<longrightarrow>
        turn_on client mired_to_kelvin self kwargs
          = turn_on client mired_to_kelvin self (kwargs\<lparr>ATTR_TRANSITION := None\<rparr>)
      \<and> (colour_calls_return client (fst (turn_on client mired_to_kelvin self kwargs)) \<longrightarrow>
           SetOn True \<in> set (fst (turn_on client mired_to_kelvin self kwargs))))"
proof -
  have same_brightness: "turn_on client mired_to_kelvin self kwargs
        = turn_on client mired_to_kelvin self (kwargs\<lparr>ATTR_BRIGHTNESS := None\<rparr>)"
    if "ATTR_BRIGHTNESS kwargs = Some 0"
    using that by (simp add: turn_on_parts power_part_falsy_brightness colour_part_def effect_part_def)
  have ramp: "BrightnessTransition 100 (py_int t) \<in> set (fst (turn_on client mired_to_kelvin self kwargs))"
    if "ATTR_BRIGHTNESS kwargs = Some 0" and "ATTR_TRANSITION kwargs = Some t" and "py_bool_float t"
      and "colour_calls_return client (fst (turn_on client mired_to_kelvin self kwargs))" for t
    using power_call_made [OF that(4)] that(1,2,3) by (simp add: truthy_float_def truthy_int_def)
  have none: "SetBrightness v \<notin> set (fst (turn_on client mired_to_kelvin self kwargs))
        \<and> BrightnessTransition v d \<notin> set (fst (turn_on client mired_to_kelvin self kwargs))"
    if "ATTR_BRIGHTNESS kwargs = Some 0" and "ATTR_TRANSITION kwargs = None" for v d
  proof -
    have "c \<noteq> SetBrightness v \<and> c \<noteq> BrightnessTransition v d"
      if "c \<in> set (fst (turn_on client mired_to_kelvin self kwargs))" for c
      using turn_on_calls [OF that] \<open>ATTR_BRIGHTNESS kwargs = Some 0\<close> \<open>ATTR_TRANSITION kwargs = None\<close>
      by (auto simp: is_colour_call_def truthy_float_def truthy_int_def split: option.splits)
    then show ?thesis by blast
  qed
  have same_transition: "turn_on client mired_to_kelvin self kwargs
          = turn_on client mired_to_kelvin self (kwargs\<lparr>ATTR_TRANSITION := None\<rparr>)"
    if "ATTR_TRANSITION kwargs = Some t" and "\<not> py_bool_float t" for t
    using that by (simp add: turn_on_parts power_part_falsy_transition colour_part_def effect_part_def)
  have on: "SetOn True \<in> set (fst (turn_on client mired_to_kelvin self kwargs))"
    if "ATTR_TRANSITION kwargs = Some t" and "\<not> py_bool_float t"
      and "colour_calls_return client (fst (turn_on client mired_to_kelvin self kwargs))" for t
    using power_call_made [OF that(3)] that(1,2) by (simp add: truthy_float_def)
  from same_brightness ramp none same_transition on show ?thesis by blast
qed

theorem turn_on_truthiness_witness:
  "ATTR_BRIGHTNESS (no_kwargs\<lparr>ATTR_BRIGHTNESS := Some 0, ATTR_TRANSITION := Some (Float 5 0)\<rparr>) = Some 0
   \<and> ATTR_TRANSITION (no_kwargs\<lparr>ATTR_BRIGHTNESS := Some 0, ATTR_TRANSITION := Some (Float 5 0)\<rparr>) = Some (Float 5 0)
   \<and> py_bool_float (Float 5 0)
   \<and> colour_calls_return responsive [BrightnessTransition 100 5]
   \<and> turn_on responsive reciprocal (init ''Shapes'') (no_kwargs\<lparr>ATTR_BRIGHTNESS := Some 0, ATTR_TRANSITION := Some (Float 5 0)\<rparr>)
       = ([BrightnessTransition 100 5], None)
   \<and> ATTR_TRANSITION (no_kwargs\<lparr>ATTR_BRIGHTNESS := Some 0\<rparr>) = None
   \<and> turn_on responsive reciprocal (init ''Shapes'') (no_kwargs\<lparr>ATTR_BRIGHTNESS := Some 0\<rparr>) = ([SetOn True], None)
   \<and> ATTR_TRANSITION (no_kwargs\<lparr>ATTR_BRIGHTNESS := Some 200, ATTR_TRANSITION := Some (Float 0 0)\<rparr>) = Some (Float 0 0)
   \<and> \<not> py_bool_float (Float 0 0)
   \<and> turn_on responsive reciprocal (init ''Shapes'') (no_kwargs\<lparr>ATTR_BRIGHTNESS := Some 200, ATTR_TRANSITION := Some (Float 0 0)\<rparr>)
       = turn_on responsive reciprocal (init ''Shapes'') (no_kwargs\<lparr>ATTR_BRIGHTNESS := Some 200\<rparr>)"
  using turn_on_truthiness [of "no_kwargs\<lparr>ATTR_BRIGHTNESS := Some 0, ATTR_TRANSITION := Some (Float 5 0)\<rparr>"
      responsive reciprocal "init ''Shapes''"]
    turn_on_truthiness [of "no_kwargs\<lparr>ATTR_BRIGHTNESS := Some 0\<rparr>" responsive reciprocal "init ''Shapes''"]
    turn_on_truthiness [of "no_kwargs\<lparr>ATTR_BRIGHTNESS := Some 200, ATTR_TRANSITION := Some (Float 0 0)\<rparr>"
      responsive reciprocal "init ''Shapes''"]
  by (simp add: turn_on_def client_call_def no_kwargs_def init_def py_bool_float_def py_int_def
        truthy_int_def truthy_float_def truthy_str_def responsive_def colour_calls_return_def)

section \<open>Pairing\<close>

text \<open>
  Discovery of a device that is not configured yet shows the confirmation form
  and leaves host, port, id and name in the flow: the state in which the
  confirmation step receives the user's input.
\<close>

lemma async_step_zeroconf_stores:
  assumes "\<not> unique_id_configured (properties_id discovery_info)"
  shows "\<exists>stored. async_step_zeroconf authorize unique_id_configured self_discovery_info discovery_info
           = (Inr (ShowForm ''zeroconf_confirm'' stored Map.empty), stored)
         \<and> stored CONF_HOST = Some (Str (zeroconf_host discovery_info))
         \<and> stored CONF_PORT = Some (Num (zeroconf_port discovery_info))
         \<and> stored CONF_ID = Some (Str (properties_id discovery_info))
         \<and> stored CONF_NAME = Some (Str (replace (zeroconf_name discovery_info)
                                            (''.'' @ zeroconf_type discovery_info) []))"
  using assms
  by (simp add: async_step_zeroconf_def async_step_zeroconf_confirm_def async_show_zeroconf_form_def Let_def)

lemma sample_discovery_info_value:
  "sample_discovery_info = [CONF_HOST \<mapsto> Str ''192.168.1.20'', CONF_PORT \<mapsto> Num 16021,
     CONF_ID \<mapsto> Str ''12:34:56:78:9A:BC'', CONF_NAME \<mapsto> Str ''Shapes 1A2B'']"
  by (simp add: sample_discovery_info_def sample_discovery_def async_step_zeroconf_def
        async_step_zeroconf_confirm_def Let_def replace_def)

text \<open>
  Claim C8: in a confirmation step with user input, for a flow in which discovery
  has stored host and port: if \<open>authorize\<close> raises \<open>NotAuthorizingNewTokens\<close> the form
  is shown again with the error \<^verbatim>\<open>failed_to_request_token\<close>; if it raises
  \<open>Unavailable\<close> the form is shown again with the error \<^verbatim>\<open>cannot_connect\<close>; if it
  succeeds the step creates an entry, titled with the stored name, whose data
  hold the host, the port, the name and the token acquired.
\<close>

theorem zeroconf_confirm:
  assumes "discovery_info CONF_HOST = Some host" and "discovery_info CONF_PORT = Some port"
  shows "(authorize host port = Inl NotAuthorizingNewTokens \<longrightarrow>
            async_step_zeroconf_confirm authorize discovery_info (Some user_input) =
              (Inr (ShowForm ''zeroconf_confirm'' discovery_info [''base'' \<mapsto> ''failed_to_request_token'']),
               discovery_info))
       \<and> (authorize host port = Inl Unavailable \<longrightarrow>
            async_step_zeroconf_confirm authorize discovery_info (Some user_input) =
              (Inr (ShowForm ''zeroconf_confirm'' discovery_info [''base'' \<mapsto> ''cannot_connect'']),
               discovery_info))
       \<and> (\<forall>token title. authorize host port = Inr token \<and> discovery_info CONF_NAME = Some title \<longrightarrow>
            (\<exists>data. async_step_zeroconf_confirm authorize discovery_info (Some user_input) =
                      (Inr (CreateEntry title data), data)
                  \<and> data CONF_HOST = Some host \<and> data CONF_PORT = Some port
                  \<and> data CONF_NAME = Some title \<and> data CONF_TOKEN = Some (Str token)))"
  using assms
  by (auto simp: async_step_zeroconf_confirm_def async_show_zeroconf_form_def entry_from_data_def Let_def)

theorem zeroconf_confirm_witness:
  "sample_discovery_info CONF_HOST = Some (Str ''192.168.1.20'')
   \<and> sample_discovery_info CONF_PORT = Some (Num 16021)
   \<and> sample_discovery_info CONF_NAME = Some (Str ''Shapes 1A2B'')
   \<and> async_step_zeroconf_confirm (\<lambda>host port. Inl NotAuthorizingNewTokens) sample_discovery_info (Some ())
       = (Inr (ShowForm ''zeroconf_confirm'' sample_discovery_info [''base'' \<mapsto> ''failed_to_request_token'']),
          sample_discovery_info)
   \<and> async_step_zeroconf_confirm (\<lambda>host port. Inl Unavailable) sample_discovery_info (Some ())
       = (Inr (ShowForm ''zeroconf_confirm'' sample_discovery_info [''base'' \<mapsto> ''cannot_connect'']),
          sample_discovery_info)
   \<and> (\<exists>data. async_step_zeroconf_confirm (\<lambda>host port. Inr ''S3cr3tT0k3n'') sample_discovery_info (Some ())
                = (Inr (CreateEntry (Str ''Shapes 1A2B'') data), data)
            \<and> data CONF_HOST = Some (Str ''192.168.1.20'') \<and> data CONF_PORT = Some (Num 16021)
            \<and> data CONF_NAME = Some (Str ''Shapes 1A2B'') \<and> data CONF_TOKEN = Some (Str ''S3cr3tT0k3n''))"
  using zeroconf_confirm [of sample_discovery_info "Str ''192.168.1.20''" "Num 16021"
      "\<lambda>host port. Inl NotAuthorizingNewTokens" "()"]
    zeroconf_confirm [of sample_discovery_info "Str ''192.168.1.20''" "Num 16021"
      "\<lambda>host port. Inl Unavailable" "()"]
    zeroconf_confirm [of sample_discovery_info "Str ''192.168.1.20''" "Num 16021"
      "\<lambda>host port. Inr ''S3cr3tT0k3n''" "()"]
  by (simp add: sample_discovery_info_value)

end
